theory Spec2Isabelle
  imports Main
begin

section \<open>Data model\<close>

text \<open>
  Python dictionaries with string keys carry the request bodies, the token claims and
  the rows that peewee's \<open>.dicts()\<close> hands back. Only the two value types that the
  schemas of \<open>src/schemas/requests.py\<close> use are needed: \<open>str\<close> and \<open>int\<close>.
\<close>

datatype jvalue = JStr string | JInt int

type_synonym pydict = "string \<rightharpoonup> jvalue"

text \<open>
  \<open>PassengerRequestSchema\<close> (requests.py, lines 37-41): a validated body has exactly
  the four fields below; \<open>model_dump\<close> turns it back into a dictionary.
\<close>

record passenger_body =
  body_name :: string
  body_age :: int
  body_email :: string
  body_password :: string

definition model_dump :: "passenger_body \<Rightarrow> pydict" where
  "model_dump body =
     [''name'' \<mapsto> JStr (body_name body),
      ''age'' \<mapsto> JInt (body_age body),
      ''email'' \<mapsto> JStr (body_email body),
      ''password'' \<mapsto> JStr (body_password body)]"

text \<open>
  One entry of pydantic's \<open>ValidationError.errors()\<close>, reduced to what
  \<open>ValidationErrorResponse.construct_details\<close> keeps of it: \<open>loc[0]\<close> and \<open>msg\<close>.
\<close>

record validation_error =
  loc :: string
  msg :: string

definition construct_details :: "validation_error list \<Rightarrow> pydict list" where
  "construct_details errs =
     map (\<lambda>e. [''field'' \<mapsto> JStr (loc e), ''message'' \<mapsto> JStr (msg e)]) errs"

text \<open>
  Modelled from the spec: \<open>JWTManager\<close> (src/utils/token.py) is not among the sources.
  Section 3 calls a token "an opaque signed string with an embedded expiry", so a
  well-formed token is represented symbolically by the key that signed it, its expiry
  time and the claims; everything else is an ill-formed string.
\<close>

datatype token = Signed string nat pydict | Garbage string

datatype exn = KeyError string | IntegrityError | DoesNotExist | EncodeError

text \<open>The statements the repository sends to the store, in the order of execution.\<close>

datatype statement =
    SelectAll
  | SelectWhereEmail jvalue
  | SelectIdWhereId int
  | Insert pydict
  | UpdateWhereId int pydict
  | DeleteWhereId int
  | SelectReservations int

text \<open>
  The store: the passengers table and the reservations table as lists of rows (each row
  the dictionary that \<open>.dicts()\<close> yields), the sequence that hands out fresh ids, and a
  journal of the executed statements.
\<close>

record database =
  passengers :: "pydict list"
  reservations :: "pydict list"
  id_seq :: int
  executed :: "statement list"

definition execute :: "statement \<Rightarrow> database \<Rightarrow> database" where
  "execute q db = db\<lparr>executed := executed db @ [q]\<rparr>"

section \<open>PassengersRepository (src/database/repository/passengers.py)\<close>

definition get_passengers :: "database \<Rightarrow> pydict list \<times> database" where
  "get_passengers db = (passengers db, execute SelectAll db)"

text \<open>\<open>.get()\<close> returns the first row of the selection or raises \<open>DoesNotExist\<close>,
  which both lookups turn into \<open>None\<close>.\<close>

definition get_passenger_by_id :: "int \<Rightarrow> database \<Rightarrow> pydict option \<times> database" where
  "get_passenger_by_id passenger_id db =
     (map_option (\<lambda>r. [''id'' \<mapsto> JInt passenger_id])
        (find (\<lambda>r. r ''id'' = Some (JInt passenger_id)) (passengers db)),
      execute (SelectIdWhereId passenger_id) db)"

definition get_by_email :: "jvalue \<Rightarrow> database \<Rightarrow> pydict option \<times> database" where
  "get_by_email passenger_email db =
     (find (\<lambda>r. r ''email'' = Some passenger_email) (passengers db),
      execute (SelectWhereEmail passenger_email) db)"

text \<open>
  Modelled from the spec: the table declaration \<open>PassengersModel\<close>
  (src/database/models/passengers.py) is not among the sources. Section 3 says that the
  id is unique and assigned by the store and that the email is unique; the handler of
  POST catches \<open>IntegrityError\<close> as "passenger already exists". So an insert or update
  that would give two rows the same email raises \<open>IntegrityError\<close> and changes nothing,
  and a new row takes its id from the sequence.
\<close>

definition email_taken :: "pydict \<Rightarrow> pydict list \<Rightarrow> bool" where
  "email_taken data rows =
     (case data ''email'' of
        None \<Rightarrow> False
      | Some e \<Rightarrow> list_ex (\<lambda>r. r ''email'' = Some e) rows)"

definition create :: "pydict \<Rightarrow> database \<Rightarrow> (exn + int) \<times> database" where
  "create data db =
     (if email_taken data (passengers db)
      then (Inl IntegrityError, execute (Insert data) db)
      else (Inr (id_seq db),
            execute (Insert data)
              (db\<lparr>passengers := passengers db @ [data(''id'' \<mapsto> JInt (id_seq db))],
                  id_seq := id_seq db + 1\<rparr>)))"

definition update :: "int \<Rightarrow> pydict \<Rightarrow> string \<Rightarrow> database \<Rightarrow> (exn + bool) \<times> database" where
  "update i data now db =
     (let values = data(''updated_at'' \<mapsto> JStr now) in
      if list_ex (\<lambda>r. r ''id'' = Some (JInt i)) (passengers db) \<and>
         email_taken values (filter (\<lambda>r. r ''id'' \<noteq> Some (JInt i)) (passengers db))
      then (Inl IntegrityError, execute (UpdateWhereId i values) db)
      else (Inr True,
            execute (UpdateWhereId i values)
              (db\<lparr>passengers :=
                    map (\<lambda>r. if r ''id'' = Some (JInt i) then r ++ values else r)
                      (passengers db)\<rparr>)))"

definition delete :: "int \<Rightarrow> database \<Rightarrow> bool \<times> database" where
  "delete i db =
     (True,
      execute (DeleteWhereId i)
        (db\<lparr>passengers := filter (\<lambda>r. r ''id'' \<noteq> Some (JInt i)) (passengers db)\<rparr>))"

text \<open>
  \<open>self.model.get(...)\<close> raises \<open>DoesNotExist\<close> when no passenger has the id; the
  reservations of a passenger are the rows of the reservations table that refer to it.
\<close>

definition get_reservations :: "int \<Rightarrow> database \<Rightarrow> (exn + pydict list) \<times> database" where
  "get_reservations i db =
     (case find (\<lambda>r. r ''id'' = Some (JInt i)) (passengers db) of
        None \<Rightarrow> (Inl DoesNotExist, execute (SelectIdWhereId i) db)
      | Some passenger \<Rightarrow>
          (Inr (filter (\<lambda>r. r ''passenger_id'' = Some (JInt i)) (reservations db)),
           execute (SelectReservations i) (execute (SelectIdWhereId i) db)))"

section \<open>Responses (src/schemas/responses.py)\<close>

datatype data =
    ListOf "pydict list"
  | DictOf pydict
  | TokenAndPassenger token pydict
  | NoData

datatype content =
    SuccessResponse data
  | BadResponse string
  | ValidationErrorResponse "pydict list"
  | NoContent

record response =
  content :: content
  status_code :: nat

definition JSONResponse :: "content \<Rightarrow> nat \<Rightarrow> response" where
  "JSONResponse c s = \<lparr>content = c, status_code = s\<rparr>"

definition Response :: "nat \<Rightarrow> response" where
  "Response s = \<lparr>content = NoContent, status_code = s\<rparr>"

section \<open>The handlers (src/api/passengers.py)\<close>

text \<open>
  What the handlers use and is not among the sources is a parameter: the validation of
  \<open>PassengerRequestSchema\<close> (its field types live in src/schemas/types), the encoder of
  \<open>JWTManager\<close>, the dependency \<open>JWTBearerDependencie\<close> (given the scheme and the
  credentials of the Authorization header, if there is one, it answers the request itself
  or yields the decoded token) and the clock.

  A handler either returns a response or lets an exception escape; both come with the
  state of the store they leave. \<open>decoded_token['email']\<close> raises \<open>KeyError\<close> when
  the claims have no email. A row that \<open>get_by_email\<close> returns has an email and so is
  never the empty dictionary: \<open>not passenger\<close> is true exactly for \<open>None\<close>. The calls
  of the logger change nothing that the handlers read and are left out, and so is the
  timestamp field of the response bodies.
\<close>

record deps =
  PassengerRequestSchema :: "pydict \<Rightarrow> validation_error list + passenger_body"
  jwt_encode :: "pydict \<Rightarrow> exn + token"
  JWTBearerDependencie :: "(string \<times> token) option \<Rightarrow> response + pydict"
  now_isoformat :: string

type_synonym outcome = "(exn + response) \<times> database"

definition get_all_passengers :: "database \<Rightarrow> outcome" where
  "get_all_passengers db =
     (let (rows, db1) = get_passengers db
      in (Inr (JSONResponse (SuccessResponse (ListOf rows)) 200), db1))"

definition get_passenger_details :: "pydict \<Rightarrow> int \<Rightarrow> database \<Rightarrow> outcome" where
  "get_passenger_details decoded_token i db =
     (case decoded_token ''email'' of
        None \<Rightarrow> (Inl (KeyError ''email''), db)
      | Some email \<Rightarrow>
          (let (passenger, db1) = get_by_email email db in
           case passenger of
             None \<Rightarrow> (Inr (JSONResponse (BadResponse ''passenger not found'') 404), db1)
           | Some p \<Rightarrow>
               if p ''id'' \<noteq> Some (JInt i)
               then (Inr (JSONResponse
                       (BadResponse ''passenger logged in does not have access to this resource'')
                       403), db1)
               else (Inr (JSONResponse (SuccessResponse (DictOf p)) 200), db1)))"

definition create_passenger :: "deps \<Rightarrow> pydict \<Rightarrow> database \<Rightarrow> outcome" where
  "create_passenger d request db =
     (case PassengerRequestSchema d request of
        Inl errors_details \<Rightarrow>
          (Inr (JSONResponse (ValidationErrorResponse (construct_details errors_details)) 400), db)
      | Inr body \<Rightarrow>
          (let body_to_dict = model_dump body in
           case create body_to_dict db of
             (Inl e, db1) \<Rightarrow>
               (if e = IntegrityError
                then (Inr (JSONResponse (BadResponse ''passenger already exists'') 400), db1)
                else (Inl e, db1))
           | (Inr new_passenger_id, db1) \<Rightarrow>
               (case jwt_encode d body_to_dict of
                  Inl e \<Rightarrow>
                    (Inr (JSONResponse (BadResponse ''Possible error generating token'') 500), db1)
                | Inr token \<Rightarrow>
                    (Inr (JSONResponse
                       (SuccessResponse
                          (TokenAndPassenger token
                             ([''id'' \<mapsto> JInt new_passenger_id] ++ body_to_dict)))
                       201), db1))))"

definition update_passenger :: "deps \<Rightarrow> pydict \<Rightarrow> int \<Rightarrow> pydict \<Rightarrow> database \<Rightarrow> outcome" where
  "update_passenger d decoded_token i request db =
     (case PassengerRequestSchema d request of
        Inl errors_details \<Rightarrow>
          (Inr (JSONResponse (ValidationErrorResponse (construct_details errors_details)) 400), db)
      | Inr body \<Rightarrow>
          (case decoded_token ''email'' of
             None \<Rightarrow> (Inl (KeyError ''email''), db)
           | Some email \<Rightarrow>
               (let (passenger, db1) = get_by_email email db;
                    body_to_dict = model_dump body in
                case passenger of
                  None \<Rightarrow> (Inr (JSONResponse (BadResponse ''passenger not found'') 404), db1)
                | Some p \<Rightarrow>
                    if p ''id'' \<noteq> Some (JInt i)
                    then (Inr (JSONResponse
                            (BadResponse ''passenger logged in does not have access to this resource'')
                            403), db1)
                    else
                      (case update i body_to_dict (now_isoformat d) db1 of
                         (Inl e, db2) \<Rightarrow> (Inl e, db2)
                       | (Inr updated_passenger, db2) \<Rightarrow>
                           (case jwt_encode d body_to_dict of
                              Inl e \<Rightarrow>
                                (Inr (JSONResponse
                                   (BadResponse ''Possible error generating token'') 500), db2)
                            | Inr token \<Rightarrow>
                                (Inr (JSONResponse
                                   (SuccessResponse (TokenAndPassenger token body_to_dict))
                                   201), db2))))))"

definition delete_passenger :: "pydict \<Rightarrow> int \<Rightarrow> database \<Rightarrow> outcome" where
  "delete_passenger decoded_token i db =
     (case decoded_token ''email'' of
        None \<Rightarrow> (Inl (KeyError ''email''), db)
      | Some email \<Rightarrow>
          (let (passenger, db1) = get_by_email email db in
           case passenger of
             None \<Rightarrow> (Inr (JSONResponse (BadResponse ''passenger not found'') 404), db1)
           | Some p \<Rightarrow>
               if p ''id'' \<noteq> Some (JInt i)
               then (Inr (JSONResponse
                       (BadResponse ''passenger logged in does not have access to this resource'')
                       403), db1)
               else (let (deleted, db2) = delete i db1
                     in (Inr (Response 204), db2))))"

definition get_passenger_reservations :: "int \<Rightarrow> pydict \<Rightarrow> database \<Rightarrow> outcome" where
  "get_passenger_reservations i decoded_token db =
     (case decoded_token ''email'' of
        None \<Rightarrow> (Inl (KeyError ''email''), db)
      | Some email \<Rightarrow>
          (let (passenger, db1) = get_by_email email db in
           case passenger of
             None \<Rightarrow> (Inr (JSONResponse (BadResponse ''passenger not found'') 404), db1)
           | Some p \<Rightarrow>
               if p ''id'' \<noteq> Some (JInt i)
               then (Inr (JSONResponse
                       (BadResponse ''passenger logged in does not have access to this resource'')
                       403), db1)
               else
                 (case get_reservations i db1 of
                    (Inl e, db2) \<Rightarrow> (Inl e, db2)
                  | (Inr rows, db2) \<Rightarrow>
                      (Inr (JSONResponse (SuccessResponse (ListOf rows)) 200), db2))))"

text \<open>
  The wiring of the router: a handler runs behind the bearer dependency exactly when its
  signature declares \<open>Depends(JWTBearerDependencie())\<close>; a dependency that answers the
  request keeps the handler from running.
\<close>

datatype endpoint =
    GET_passengers
  | GET_passenger int
  | POST_passengers pydict
  | PUT_passenger int pydict
  | DELETE_passenger int
  | GET_passenger_reservations int

definition router :: "deps \<Rightarrow> (string \<times> token) option \<Rightarrow> endpoint \<Rightarrow> database \<Rightarrow> outcome" where
  "router d authorization ep db =
     (case ep of
        GET_passengers \<Rightarrow> get_all_passengers db
      | POST_passengers request \<Rightarrow> create_passenger d request db
      | GET_passenger i \<Rightarrow>
          (case JWTBearerDependencie d authorization of
             Inl refusal \<Rightarrow> (Inr refusal, db)
           | Inr decoded_token \<Rightarrow> get_passenger_details decoded_token i db)
      | PUT_passenger i request \<Rightarrow>
          (case JWTBearerDependencie d authorization of
             Inl refusal \<Rightarrow> (Inr refusal, db)
           | Inr decoded_token \<Rightarrow> update_passenger d decoded_token i request db)
      | DELETE_passenger i \<Rightarrow>
          (case JWTBearerDependencie d authorization of
             Inl refusal \<Rightarrow> (Inr refusal, db)
           | Inr decoded_token \<Rightarrow> delete_passenger decoded_token i db)
      | GET_passenger_reservations i \<Rightarrow>
          (case JWTBearerDependencie d authorization of
             Inl refusal \<Rightarrow> (Inr refusal, db)
           | Inr decoded_token \<Rightarrow> get_passenger_reservations i decoded_token db))"

text \<open>The two refusals that every protected handler builds.\<close>

definition not_found :: response where
  "not_found = JSONResponse (BadResponse ''passenger not found'') 404"

definition forbidden :: response where
  "forbidden =
     JSONResponse (BadResponse ''passenger logged in does not have access to this resource'') 403"

text \<open>The statements a call has executed: what it appended to the journal.\<close>

definition issued :: "database \<Rightarrow> database \<Rightarrow> statement list" where
  "issued db db' = drop (length (executed db)) (executed db')"

definition status_of :: "outcome \<Rightarrow> nat option" where
  "status_of out = (case fst out of Inl e \<Rightarrow> None | Inr r \<Rightarrow> Some (status_code r))"

definition same_tables :: "database \<Rightarrow> database \<Rightarrow> bool" where
  "same_tables db db' \<longleftrightarrow>
     passengers db' = passengers db \<and> reservations db' = reservations db \<and>
     id_seq db' = id_seq db"

section \<open>The ownership rule as the specification words it (section 4.4)\<close>

text \<open>The failures a caller can see (section 7).\<close>

datatype failure =
    AuthenticationRequired
  | IdentityNotFound
  | OwnershipViolation
  | InvalidCredentials

definition http_status :: "failure \<Rightarrow> nat" where
  "http_status f =
     (case f of
        AuthenticationRequired \<Rightarrow> 403
      | IdentityNotFound \<Rightarrow> 404
      | OwnershipViolation \<Rightarrow> 403
      | InvalidCredentials \<Rightarrow> 401)"

datatype decision = Allow | Refuse failure

definition ownership_guard :: "pydict \<Rightarrow> int \<Rightarrow> database \<Rightarrow> exn + decision" where
  "ownership_guard claims path_id db =
     (case claims ''email'' of
        None \<Rightarrow> Inl (KeyError ''email'')
      | Some email \<Rightarrow>
          (case fst (get_by_email email db) of
             None \<Rightarrow> Inr (Refuse IdentityNotFound)
           | Some identity \<Rightarrow>
               if identity ''id'' = Some (JInt path_id) then Inr Allow
               else Inr (Refuse OwnershipViolation)))"

section \<open>Token codec, login and bearer authentication (specification, sections 4.1 to 4.3)\<close>

text \<open>
  Modelled from the spec: the codec \<open>JWTManager\<close> (src/utils/token.py), the login
  handler (src/api/auth.py) and the dependency \<open>JWTBearerDependencie\<close>
  (src/utils/dependencies.py) are not among the sources. What follows is their contract
  as sections 4.1, 4.2 and 4.3 word it. The signing key and the lifetime of a token are
  configuration; the clock is an argument.
\<close>

record codec =
  signing_key :: string
  lifetime :: nat

definition encode :: "codec \<Rightarrow> nat \<Rightarrow> pydict \<Rightarrow> token" where
  "encode c now claims = Signed (signing_key c) (now + lifetime c) claims"

datatype decode_failure = Malformed | SignatureInvalid | Expired

text \<open>
  Section 4.1 gives each failure of \<open>decode\<close> its condition: the string is not a
  well-formed signed token, the signature does not match the configured key, the current
  time is past the embedded expiry. It does not say which failure is reported when two
  conditions hold at once, so \<open>decode\<close> is a relation that admits either.
\<close>

inductive decode :: "codec \<Rightarrow> nat \<Rightarrow> token \<Rightarrow> decode_failure + pydict \<Rightarrow> bool"
  for c :: codec and now :: nat where
  malformed: "decode c now (Garbage s) (Inl Malformed)"
| signature_invalid:
    "k \<noteq> signing_key c \<Longrightarrow> decode c now (Signed k expiry claims) (Inl SignatureInvalid)"
| expired: "expiry < now \<Longrightarrow> decode c now (Signed k expiry claims) (Inl Expired)"
| valid:
    "k = signing_key c \<Longrightarrow> now \<le> expiry \<Longrightarrow>
     decode c now (Signed k expiry claims) (Inr claims)"

code_pred decode .

text \<open>
  Section 4.3: a missing header or a scheme other than \<open>Bearer\<close> fails with
  \<open>AuthenticationRequired\<close>, and so does every failure of \<open>decode\<close>; otherwise the
  decoded claims are handed to the operation.
\<close>

inductive bearer_authenticator ::
  "codec \<Rightarrow> nat \<Rightarrow> (string \<times> token) option \<Rightarrow> failure + pydict \<Rightarrow> bool"
  for c :: codec and now :: nat where
  missing: "bearer_authenticator c now None (Inl AuthenticationRequired)"
| scheme:
    "sch \<noteq> ''Bearer'' \<Longrightarrow>
     bearer_authenticator c now (Some (sch, t)) (Inl AuthenticationRequired)"
| undecodable:
    "decode c now t (Inl f) \<Longrightarrow>
     bearer_authenticator c now (Some (''Bearer'', t)) (Inl AuthenticationRequired)"
| authenticated:
    "decode c now t (Inr claims) \<Longrightarrow>
     bearer_authenticator c now (Some (''Bearer'', t)) (Inr claims)"

code_pred bearer_authenticator .

text \<open>
  Section 4.2: resolve the email through the store (the repository's \<open>get_by_email\<close>);
  absent, fail with \<open>IdentityNotFound\<close>; compare the password with the store's
  \<open>verify_password\<close>, which is opaque and therefore a parameter; on a mismatch fail with
  \<open>InvalidCredentials\<close>; on a match encode the resolved identity's full claim set.
\<close>

definition login ::
  "(pydict \<Rightarrow> string \<Rightarrow> bool) \<Rightarrow> codec \<Rightarrow> nat \<Rightarrow> string \<Rightarrow> string \<Rightarrow> database \<Rightarrow>
   (failure + token) \<times> database" where
  "login verify_password c now email password db =
     (let (identity, db1) = get_by_email (JStr email) db in
      case identity of
        None \<Rightarrow> (Inl IdentityNotFound, db1)
      | Some p \<Rightarrow>
          if verify_password p password then (Inr (encode c now p), db1)
          else (Inl InvalidCredentials, db1))"

text \<open>
  Sections 6 and 8: \<open>200\<close> with the token, \<open>404\<close> for an unknown email, \<open>401\<close> with
  the message "Invalid password" for a wrong password.
\<close>

definition login_status :: "failure + token \<Rightarrow> nat" where
  "login_status r = (case r of Inl f \<Rightarrow> http_status f | Inr t \<Rightarrow> 200)"

definition login_message :: "failure + token \<Rightarrow> string option" where
  "login_message r =
     (case r of
        Inl InvalidCredentials \<Rightarrow> Some ''Invalid password''
      | _ \<Rightarrow> None)"

section \<open>A concrete configuration for evaluation\<close>

text \<open>
  The field list of \<open>PassengerRequestSchema\<close> with every field required, as requests.py
  declares it (\<open>Field(...)\<close>), and with the string types of src/schemas/types, which are
  not among the sources, accepting every string.
\<close>

definition str_field :: "string \<Rightarrow> pydict \<Rightarrow> validation_error + string" where
  "str_field f request =
     (case request f of
        None \<Rightarrow> Inl \<lparr>loc = f, msg = ''Field required''\<rparr>
      | Some (JStr s) \<Rightarrow> Inr s
      | Some (JInt n) \<Rightarrow> Inl \<lparr>loc = f, msg = ''Input should be a valid string''\<rparr>)"

definition int_field :: "string \<Rightarrow> pydict \<Rightarrow> validation_error + int" where
  "int_field f request =
     (case request f of
        None \<Rightarrow> Inl \<lparr>loc = f, msg = ''Field required''\<rparr>
      | Some (JInt n) \<Rightarrow> Inr n
      | Some (JStr s) \<Rightarrow> Inl \<lparr>loc = f, msg = ''Input should be a valid integer''\<rparr>)"

fun errors_of :: "validation_error + 'a \<Rightarrow> validation_error list" where
  "errors_of (Inl e) = [e]"
| "errors_of (Inr v) = []"

definition required_fields_schema :: "pydict \<Rightarrow> validation_error list + passenger_body" where
  "required_fields_schema request =
     (let n = str_field ''name'' request; a = int_field ''age'' request;
          e = str_field ''email'' request; p = str_field ''password'' request
      in case (n, a, e, p) of
           (Inr n', Inr a', Inr e', Inr p') \<Rightarrow>
             Inr \<lparr>body_name = n', body_age = a', body_email = e', body_password = p'\<rparr>
         | _ \<Rightarrow> Inl (errors_of n @ errors_of a @ errors_of e @ errors_of p))"

definition sample_bearer :: "(string \<times> token) option \<Rightarrow> response + pydict" where
  "sample_bearer authorization =
     (case authorization of
        Some (scheme, Signed k exp claims) \<Rightarrow>
          if scheme = ''Bearer'' \<and> k = ''secret'' then Inr claims
          else Inl (JSONResponse (BadResponse ''Not authenticated'') 403)
      | _ \<Rightarrow> Inl (JSONResponse (BadResponse ''Not authenticated'') 403))"

definition sample_deps :: deps where
  "sample_deps =
     \<lparr>PassengerRequestSchema = required_fields_schema,
      jwt_encode = (\<lambda>claims. Inr (Signed ''secret'' 3600 claims)),
      JWTBearerDependencie = sample_bearer,
      now_isoformat = ''2024-05-01T10:30''\<rparr>"

definition sample_codec :: codec where
  "sample_codec = \<lparr>signing_key = ''secret'', lifetime = 3600\<rparr>"

definition sample_verify :: "pydict \<Rightarrow> string \<Rightarrow> bool" where
  "sample_verify identity plaintext \<longleftrightarrow> identity ''password'' = Some (JStr plaintext)"

definition alice :: pydict where
  "alice = [''id'' \<mapsto> JInt 1, ''name'' \<mapsto> JStr ''Alice'', ''age'' \<mapsto> JInt 30,
            ''email'' \<mapsto> JStr ''alice@example.com'', ''password'' \<mapsto> JStr ''Alice123!'']"

definition bob :: pydict where
  "bob = [''id'' \<mapsto> JInt 2, ''name'' \<mapsto> JStr ''Bob'', ''age'' \<mapsto> JInt 41,
          ''email'' \<mapsto> JStr ''bob@example.com'', ''password'' \<mapsto> JStr ''Bob45678!'']"

definition sample_db :: database where
  "sample_db = \<lparr>passengers = [alice, bob], reservations = [], id_seq = 3, executed = []\<rparr>"

definition alice_token :: pydict where
  "alice_token = [''email'' \<mapsto> JStr ''alice@example.com'', ''id'' \<mapsto> JInt 2]"

definition carol_token :: pydict where
  "carol_token = [''email'' \<mapsto> JStr ''carol@example.com'', ''id'' \<mapsto> JInt 2]"

definition carol_body :: pydict where
  "carol_body = [''name'' \<mapsto> JStr ''Carol'', ''age'' \<mapsto> JInt 27,
                 ''email'' \<mapsto> JStr ''carol@example.com'', ''password'' \<mapsto> JStr ''Carol789!'']"

definition carol :: passenger_body where
  "carol = \<lparr>body_name = ''Carol'', body_age = 27, body_email = ''carol@example.com'',
             body_password = ''Carol789!''\<rparr>"

section \<open>Facts about the journal and the repository\<close>

lemma issued_execute: "issued db (execute q db) = [q]"
  by (simp add: issued_def execute_def)

lemma same_tables_execute: "same_tables db (execute q db)"
  by (simp add: same_tables_def execute_def)

lemma passengers_execute: "passengers (execute q db) = passengers db"
  by (simp add: execute_def)

lemma update_rows:
  "passengers (snd (update i data now db)) = passengers db \<or>
   passengers (snd (update i data now db)) =
     map (\<lambda>r. if r ''id'' = Some (JInt i) then r ++ data(''updated_at'' \<mapsto> JStr now) else r)
       (passengers db)"
  by (simp add: update_def Let_def execute_def)

lemma delete_rows:
  "passengers (snd (delete i db)) = filter (\<lambda>r. r ''id'' \<noteq> Some (JInt i)) (passengers db)"
  by (simp add: delete_def execute_def)

section \<open>The repository\<close>

text \<open>
  C10. \<open>update(id, data)\<close> and \<open>delete(id)\<close> touch only the rows whose id is the
  argument. After \<open>update\<close> the table has as many rows as before and every row whose id
  differs from the argument is, at its position, the row it was; after \<open>delete\<close> the rows
  whose id differs from the argument are the same rows in the same order.
\<close>

theorem update_delete_frame:
  "length (passengers (snd (update i data now db))) = length (passengers db) \<and>
   (\<forall>k < length (passengers db).
      (passengers db ! k) ''id'' \<noteq> Some (JInt i) \<longrightarrow>
      passengers (snd (update i data now db)) ! k = passengers db ! k) \<and>
   filter (\<lambda>r. r ''id'' \<noteq> Some (JInt i)) (passengers (snd (delete i db))) =
     filter (\<lambda>r. r ''id'' \<noteq> Some (JInt i)) (passengers db)"
proof (intro conjI allI impI)
  show "length (passengers (snd (update i data now db))) = length (passengers db)"
    using update_rows [of i data now db] by auto
next
  fix k
  assume "k < length (passengers db)" "(passengers db ! k) ''id'' \<noteq> Some (JInt i)"
  then show "passengers (snd (update i data now db)) ! k = passengers db ! k"
    using update_rows [of i data now db] by auto
next
  show "filter (\<lambda>r. r ''id'' \<noteq> Some (JInt i)) (passengers (snd (delete i db))) =
     filter (\<lambda>r. r ''id'' \<noteq> Some (JInt i)) (passengers db)"
    by (simp add: delete_rows)
qed

theorem update_delete_frame_witness:
  "1 < length (passengers sample_db) \<and>
   (passengers sample_db ! 1) ''id'' \<noteq> Some (JInt 1) \<and>
   passengers (snd (update 1 carol_body ''2024-05-01T10:30'' sample_db)) ! 1 =
     passengers sample_db ! 1 \<and>
   (passengers (snd (update 1 carol_body ''2024-05-01T10:30'' sample_db)) ! 0) ''email'' =
     Some (JStr ''carol@example.com'')"
  using update_delete_frame [of 1 carol_body "''2024-05-01T10:30''" sample_db]
  by (simp add: sample_db_def bob_def alice_def carol_body_def update_def email_taken_def
      execute_def)

section \<open>The list endpoint\<close>

text \<open>
  C8. \<open>GET /passengers/\<close> is behind neither the bearer dependency nor the ownership
  rule: whatever the Authorization header is, and also when there is none, and whatever
  the dependency would answer, the response is 200 and carries every row of the
  passengers table as the repository selects it, all columns included.
\<close>

theorem list_endpoint_open:
  "router d authorization GET_passengers db =
     (Inr (JSONResponse (SuccessResponse (ListOf (passengers db))) 200), execute SelectAll db)"
  by (simp add: router_def get_all_passengers_def get_passengers_def)

section \<open>The refusals of the protected handlers\<close>

lemma get_passenger_details_forbidden:
  assumes "tok ''email'' = Some e" "fst (get_by_email e db) = Some p" "p ''id'' \<noteq> Some (JInt i)"
  shows "get_passenger_details tok i db = (Inr forbidden, execute (SelectWhereEmail e) db)"
  using assms by (simp add: get_passenger_details_def get_by_email_def forbidden_def)

lemma delete_passenger_forbidden:
  assumes "tok ''email'' = Some e" "fst (get_by_email e db) = Some p" "p ''id'' \<noteq> Some (JInt i)"
  shows "delete_passenger tok i db = (Inr forbidden, execute (SelectWhereEmail e) db)"
  using assms by (simp add: delete_passenger_def get_by_email_def forbidden_def)

lemma get_passenger_reservations_forbidden:
  assumes "tok ''email'' = Some e" "fst (get_by_email e db) = Some p" "p ''id'' \<noteq> Some (JInt i)"
  shows "get_passenger_reservations i tok db = (Inr forbidden, execute (SelectWhereEmail e) db)"
  using assms by (simp add: get_passenger_reservations_def get_by_email_def forbidden_def)

lemma update_passenger_forbidden:
  assumes "tok ''email'' = Some e" "fst (get_by_email e db) = Some p" "p ''id'' \<noteq> Some (JInt i)"
    and "PassengerRequestSchema d request = Inr body"
  shows "update_passenger d tok i request db = (Inr forbidden, execute (SelectWhereEmail e) db)"
  using assms by (simp add: update_passenger_def get_by_email_def forbidden_def)

lemma update_passenger_invalid:
  assumes "PassengerRequestSchema d request = Inl errs"
  shows "update_passenger d tok i request db =
     (Inr (JSONResponse (ValidationErrorResponse (construct_details errs)) 400), db)"
  using assms by (simp add: update_passenger_def)

lemma get_passenger_details_not_found:
  assumes "tok ''email'' = Some e" "fst (get_by_email e db) = None"
  shows "get_passenger_details tok i db = (Inr not_found, execute (SelectWhereEmail e) db)"
  using assms by (simp add: get_passenger_details_def get_by_email_def not_found_def)

lemma delete_passenger_not_found:
  assumes "tok ''email'' = Some e" "fst (get_by_email e db) = None"
  shows "delete_passenger tok i db = (Inr not_found, execute (SelectWhereEmail e) db)"
  using assms by (simp add: delete_passenger_def get_by_email_def not_found_def)

lemma get_passenger_reservations_not_found:
  assumes "tok ''email'' = Some e" "fst (get_by_email e db) = None"
  shows "get_passenger_reservations i tok db = (Inr not_found, execute (SelectWhereEmail e) db)"
  using assms by (simp add: get_passenger_reservations_def get_by_email_def not_found_def)

lemma update_passenger_not_found:
  assumes "tok ''email'' = Some e" "fst (get_by_email e db) = None"
    and "PassengerRequestSchema d request = Inr body"
  shows "update_passenger d tok i request db = (Inr not_found, execute (SelectWhereEmail e) db)"
  using assms by (simp add: update_passenger_def get_by_email_def not_found_def)

lemma handlers_email_only:
  assumes "tok ''email'' = tok' ''email''"
  shows "get_passenger_details tok i db = get_passenger_details tok' i db"
    and "delete_passenger tok i db = delete_passenger tok' i db"
    and "get_passenger_reservations i tok db = get_passenger_reservations i tok' db"
    and "update_passenger d tok i request db = update_passenger d tok' i request db"
proof -
  show "get_passenger_details tok i db = get_passenger_details tok' i db"
    using assms by (simp add: get_passenger_details_def)
  show "delete_passenger tok i db = delete_passenger tok' i db"
    using assms by (simp add: delete_passenger_def)
  show "get_passenger_reservations i tok db = get_passenger_reservations i tok' db"
    using assms by (simp add: get_passenger_reservations_def)
  show "update_passenger d tok i request db = update_passenger d tok' i request db"
    using assms by (cases "PassengerRequestSchema d request") (simp_all add: update_passenger_def)
qed

text \<open>The sample store and the sample schema, evaluated.\<close>

lemma sample_alice:
  "fst (get_by_email (JStr ''alice@example.com'') sample_db) = Some alice"
  by (simp add: get_by_email_def sample_db_def alice_def)

lemma sample_carol:
  "fst (get_by_email (JStr ''carol@example.com'') sample_db) = None"
  by (simp add: get_by_email_def sample_db_def alice_def bob_def)

lemma sample_schema_empty: "PassengerRequestSchema sample_deps Map.empty =
  Inl [\<lparr>loc = ''name'', msg = ''Field required''\<rparr>, \<lparr>loc = ''age'', msg = ''Field required''\<rparr>,
       \<lparr>loc = ''email'', msg = ''Field required''\<rparr>, \<lparr>loc = ''password'', msg = ''Field required''\<rparr>]"
  by (simp add: sample_deps_def required_fields_schema_def str_field_def int_field_def)

lemma sample_schema_carol: "PassengerRequestSchema sample_deps carol_body =
  Inr \<lparr>body_name = ''Carol'', body_age = 27, body_email = ''carol@example.com'',
       body_password = ''Carol789!''\<rparr>"
  by (simp add: sample_deps_def required_fields_schema_def str_field_def int_field_def carol_body_def)

section \<open>The ownership rule\<close>

text \<open>
  C1, as the code has it. Let the token's email resolve to a passenger whose id is not the
  id of the path. Then \<open>GET /passengers/{id}\<close>, \<open>DELETE /passengers/{id}\<close> and
  \<open>GET /passengers/{id}/reservations\<close> answer 403, and so does \<open>PUT /passengers/{id}\<close>
  when the request body passes the validation of the schema; a body that fails it is
  answered with 400 before the passenger is looked up. In the 403 case the only statement
  executed is the lookup by email and the tables are what they were, so the addressed
  resource is neither read nor changed.
\<close>

theorem ownership_mismatch_forbidden:
  assumes "decoded_token ''email'' = Some e"
    and "fst (get_by_email e db) = Some p"
    and "p ''id'' \<noteq> Some (JInt i)"
  shows
    "get_passenger_details decoded_token i db = (Inr forbidden, execute (SelectWhereEmail e) db) \<and>
     delete_passenger decoded_token i db = (Inr forbidden, execute (SelectWhereEmail e) db) \<and>
     get_passenger_reservations i decoded_token db =
       (Inr forbidden, execute (SelectWhereEmail e) db) \<and>
     (\<forall>body. PassengerRequestSchema d request = Inr body \<longrightarrow>
        update_passenger d decoded_token i request db =
          (Inr forbidden, execute (SelectWhereEmail e) db)) \<and>
     (\<forall>errs. PassengerRequestSchema d request = Inl errs \<longrightarrow>
        update_passenger d decoded_token i request db =
          (Inr (JSONResponse (ValidationErrorResponse (construct_details errs)) 400), db)) \<and>
     status_code forbidden = 403 \<and>
     same_tables db (execute (SelectWhereEmail e) db) \<and>
     issued db (execute (SelectWhereEmail e) db) = [SelectWhereEmail e]"
  using assms
  by (simp add: get_passenger_details_forbidden delete_passenger_forbidden
      get_passenger_reservations_forbidden update_passenger_forbidden update_passenger_invalid
      same_tables_execute issued_execute forbidden_def JSONResponse_def)

theorem ownership_mismatch_forbidden_witness:
  "alice_token ''email'' = Some (JStr ''alice@example.com'') \<and>
   fst (get_by_email (JStr ''alice@example.com'') sample_db) = Some alice \<and>
   alice ''id'' \<noteq> Some (JInt 2) \<and>
   PassengerRequestSchema sample_deps carol_body =
     Inr \<lparr>body_name = ''Carol'', body_age = 27, body_email = ''carol@example.com'',
          body_password = ''Carol789!''\<rparr> \<and>
   status_of (get_passenger_details alice_token 2 sample_db) = Some 403 \<and>
   status_of (delete_passenger alice_token 2 sample_db) = Some 403 \<and>
   status_of (get_passenger_reservations 2 alice_token sample_db) = Some 403 \<and>
   status_of (update_passenger sample_deps alice_token 2 carol_body sample_db) = Some 403 \<and>
   passengers (snd (delete_passenger alice_token 2 sample_db)) = passengers sample_db"
proof -
  have a: "alice_token ''email'' = Some (JStr ''alice@example.com'')"
    by (simp add: alice_token_def)
  have b: "alice ''id'' \<noteq> Some (JInt 2)"
    by (simp add: alice_def)
  show ?thesis
    using ownership_mismatch_forbidden [where decoded_token = alice_token
        and e = "JStr ''alice@example.com''" and db = sample_db and p = alice and i = 2
        and d = sample_deps and request = carol_body]
    by (simp add: a b sample_alice sample_schema_carol status_of_def forbidden_def
        JSONResponse_def passengers_execute)
qed

text \<open>
  C1 as stated fails for \<open>PUT\<close>: with Alice's token, Bob's id in the path and an empty
  request body, the answer is 400, not 403.
\<close>

theorem ownership_mismatch_counterexample:
  "alice_token ''email'' = Some (JStr ''alice@example.com'') \<and>
   fst (get_by_email (JStr ''alice@example.com'') sample_db) = Some alice \<and>
   alice ''id'' \<noteq> Some (JInt 2) \<and>
   status_of (update_passenger sample_deps alice_token 2 Map.empty sample_db) = Some 400 \<and>
   status_of (update_passenger sample_deps alice_token 2 Map.empty sample_db) \<noteq> Some 403"
  by (simp add: sample_alice update_passenger_invalid [OF sample_schema_empty] status_of_def
      JSONResponse_def) (simp add: alice_token_def alice_def)

section \<open>Resolving the identity\<close>

text \<open>
  C2, as the code has it. A protected handler reads nothing of the decoded token but its
  email: two tokens with the same email (whatever id or other claims they carry) give the
  same outcome. When no passenger has the token's email, \<open>GET /passengers/{id}\<close>,
  \<open>DELETE /passengers/{id}\<close> and \<open>GET /passengers/{id}/reservations\<close> answer 404
  "passenger not found", and so does \<open>PUT /passengers/{id}\<close> when the request body
  passes the validation of the schema; a body that fails it is answered with 400 before
  the lookup.
\<close>

theorem identity_resolved_by_email:
  "(decoded_token ''email'' = decoded_token' ''email'' \<longrightarrow>
      get_passenger_details decoded_token i db = get_passenger_details decoded_token' i db \<and>
      delete_passenger decoded_token i db = delete_passenger decoded_token' i db \<and>
      get_passenger_reservations i decoded_token db =
        get_passenger_reservations i decoded_token' db \<and>
      update_passenger d decoded_token i request db =
        update_passenger d decoded_token' i request db) \<and>
   (decoded_token ''email'' = Some e \<and> fst (get_by_email e db) = None \<longrightarrow>
      get_passenger_details decoded_token i db =
        (Inr not_found, execute (SelectWhereEmail e) db) \<and>
      delete_passenger decoded_token i db = (Inr not_found, execute (SelectWhereEmail e) db) \<and>
      get_passenger_reservations i decoded_token db =
        (Inr not_found, execute (SelectWhereEmail e) db) \<and>
      (\<forall>body. PassengerRequestSchema d request = Inr body \<longrightarrow>
         update_passenger d decoded_token i request db =
           (Inr not_found, execute (SelectWhereEmail e) db)) \<and>
      (\<forall>errs. PassengerRequestSchema d request = Inl errs \<longrightarrow>
         update_passenger d decoded_token i request db =
           (Inr (JSONResponse (ValidationErrorResponse (construct_details errs)) 400), db)) \<and>
      status_code not_found = 404)"
proof -
  have same:
    "get_passenger_details decoded_token i db = get_passenger_details decoded_token' i db \<and>
      delete_passenger decoded_token i db = delete_passenger decoded_token' i db \<and>
      get_passenger_reservations i decoded_token db =
        get_passenger_reservations i decoded_token' db \<and>
      update_passenger d decoded_token i request db =
        update_passenger d decoded_token' i request db"
    if "decoded_token ''email'' = decoded_token' ''email''"
    using that handlers_email_only [of decoded_token decoded_token'] by blast
  have absent:
    "get_passenger_details decoded_token i db =
        (Inr not_found, execute (SelectWhereEmail e) db) \<and>
      delete_passenger decoded_token i db = (Inr not_found, execute (SelectWhereEmail e) db) \<and>
      get_passenger_reservations i decoded_token db =
        (Inr not_found, execute (SelectWhereEmail e) db) \<and>
      (\<forall>body. PassengerRequestSchema d request = Inr body \<longrightarrow>
         update_passenger d decoded_token i request db =
           (Inr not_found, execute (SelectWhereEmail e) db)) \<and>
      (\<forall>errs. PassengerRequestSchema d request = Inl errs \<longrightarrow>
         update_passenger d decoded_token i request db =
           (Inr (JSONResponse (ValidationErrorResponse (construct_details errs)) 400), db)) \<and>
      status_code not_found = 404"
    if a: "decoded_token ''email'' = Some e" and b: "fst (get_by_email e db) = None"
    using a b
    by (simp add: get_passenger_details_not_found delete_passenger_not_found
        get_passenger_reservations_not_found update_passenger_not_found
        update_passenger_invalid not_found_def JSONResponse_def)
  from same absent show ?thesis
    by blast
qed

theorem identity_resolved_by_email_witness:
  "carol_token ''email'' = Some (JStr ''carol@example.com'') \<and>
   fst (get_by_email (JStr ''carol@example.com'') sample_db) = None \<and>
   PassengerRequestSchema sample_deps carol_body =
     Inr \<lparr>body_name = ''Carol'', body_age = 27, body_email = ''carol@example.com'',
          body_password = ''Carol789!''\<rparr> \<and>
   status_of (get_passenger_details carol_token 2 sample_db) = Some 404 \<and>
   status_of (delete_passenger carol_token 2 sample_db) = Some 404 \<and>
   status_of (get_passenger_reservations 2 carol_token sample_db) = Some 404 \<and>
   status_of (update_passenger sample_deps carol_token 2 carol_body sample_db) = Some 404"
proof -
  have a: "carol_token ''email'' = Some (JStr ''carol@example.com'')"
    by (simp add: carol_token_def)
  show ?thesis
    using identity_resolved_by_email [where decoded_token = carol_token
        and decoded_token' = carol_token
        and e = "JStr ''carol@example.com''" and db = sample_db and i = 2
        and d = sample_deps and request = carol_body]
    by (simp add: a sample_carol sample_schema_carol status_of_def not_found_def
        JSONResponse_def)
qed

text \<open>
  C2 as stated fails for \<open>PUT\<close>: with a token whose email no passenger has and an empty
  request body, the answer is 400, not 404.
\<close>

theorem identity_not_found_counterexample:
  "carol_token ''email'' = Some (JStr ''carol@example.com'') \<and>
   fst (get_by_email (JStr ''carol@example.com'') sample_db) = None \<and>
   status_of (update_passenger sample_deps carol_token 1 Map.empty sample_db) = Some 400 \<and>
   status_of (update_passenger sample_deps carol_token 1 Map.empty sample_db) \<noteq> Some 404"
  by (simp add: sample_carol update_passenger_invalid [OF sample_schema_empty] status_of_def
      JSONResponse_def) (simp add: carol_token_def)

section \<open>The branches of the protected handlers\<close>

lemma executed_execute: "executed (execute q db) = executed db @ [q]"
  by (simp add: execute_def)

lemma executed_update:
  "executed (snd (update i data now db)) =
     executed db @ [UpdateWhereId i (data(''updated_at'' \<mapsto> JStr now))]"
  by (simp add: update_def Let_def execute_def)

lemma executed_delete: "executed (snd (delete i db)) = executed db @ [DeleteWhereId i]"
  by (simp add: delete_def execute_def)

text \<open>The branches of PUT and DELETE, one by one.\<close>

lemma update_passenger_no_email:
  assumes "PassengerRequestSchema d request = Inr body" "tok ''email'' = None"
  shows "update_passenger d tok i request db = (Inl (KeyError ''email''), db)"
  using assms by (simp add: update_passenger_def)

lemma update_passenger_allowed:
  assumes "PassengerRequestSchema d request = Inr body" "tok ''email'' = Some e"
    and "fst (get_by_email e db) = Some p" "p ''id'' = Some (JInt i)"
  shows "update_passenger d tok i request db =
     (case fst (update i (model_dump body) (now_isoformat d) (execute (SelectWhereEmail e) db)) of
        Inl ex \<Rightarrow> Inl ex
      | Inr u \<Rightarrow>
          (case jwt_encode d (model_dump body) of
             Inl ex \<Rightarrow> Inr (JSONResponse (BadResponse ''Possible error generating token'') 500)
           | Inr token \<Rightarrow>
               Inr (JSONResponse (SuccessResponse (TokenAndPassenger token (model_dump body))) 201)),
      snd (update i (model_dump body) (now_isoformat d) (execute (SelectWhereEmail e) db)))"
  using assms
  by (cases "update i (model_dump body) (now_isoformat d) (execute (SelectWhereEmail e) db)")
    (simp add: update_passenger_def get_by_email_def Let_def split: sum.splits)

lemma delete_passenger_no_email:
  assumes "tok ''email'' = None"
  shows "delete_passenger tok i db = (Inl (KeyError ''email''), db)"
  using assms by (simp add: delete_passenger_def)

lemma delete_passenger_allowed:
  assumes "tok ''email'' = Some e" "fst (get_by_email e db) = Some p" "p ''id'' = Some (JInt i)"
  shows "delete_passenger tok i db =
     (Inr (Response 204), snd (delete i (execute (SelectWhereEmail e) db)))"
  using assms
  by (simp add: delete_passenger_def get_by_email_def split: prod.splits)

lemma issued_nil: "issued db db = []"
  by (simp add: issued_def)

lemma issued_update:
  "issued db (snd (update i data now (execute q db))) =
     [q, UpdateWhereId i (data(''updated_at'' \<mapsto> JStr now))]"
  by (simp add: issued_def executed_update executed_execute)

lemma issued_delete:
  "issued db (snd (delete i (execute q db))) = [q, DeleteWhereId i]"
  by (simp add: issued_def executed_delete executed_execute)

lemma update_passenger_failure_frame:
  assumes "update_passenger d tok i request db = (Inr r, db')"
    and "status_code r = 404 \<or> status_code r = 403"
  shows "same_tables db db' \<and> (\<exists>e. tok ''email'' = Some e \<and> issued db db' = [SelectWhereEmail e])"
proof (cases "PassengerRequestSchema d request")
  case (Inl errs)
  with assms show ?thesis
    by (auto simp: update_passenger_invalid JSONResponse_def)
next
  case (Inr body)
  show ?thesis
  proof (cases "tok ''email''")
    case None
    with Inr assms show ?thesis
      by (simp add: update_passenger_no_email)
  next
    case (Some e)
    show ?thesis
    proof (cases "fst (get_by_email e db)")
      case None
      with Inr Some assms show ?thesis
        by (auto simp: update_passenger_not_found same_tables_execute issued_execute)
    next
      case (Some p)
      show ?thesis
      proof (cases "p ''id'' = Some (JInt i)")
        case False
        with Inr \<open>tok ''email'' = Some e\<close> Some assms show ?thesis
          by (auto simp: update_passenger_forbidden same_tables_execute issued_execute)
      next
        case True
        with Inr \<open>tok ''email'' = Some e\<close> Some assms show ?thesis
          by (auto simp: update_passenger_allowed JSONResponse_def split: sum.splits)
      qed
    qed
  qed
qed

lemma delete_passenger_failure_frame:
  assumes "delete_passenger tok i db = (Inr r, db')"
    and "status_code r = 404 \<or> status_code r = 403"
  shows "same_tables db db' \<and> (\<exists>e. tok ''email'' = Some e \<and> issued db db' = [SelectWhereEmail e])"
proof (cases "tok ''email''")
  case None
  with assms show ?thesis
    by (simp add: delete_passenger_no_email)
next
  case (Some e)
  show ?thesis
  proof (cases "fst (get_by_email e db)")
    case None
    with Some assms show ?thesis
      by (auto simp: delete_passenger_not_found same_tables_execute issued_execute)
  next
    case (Some p)
    show ?thesis
    proof (cases "p ''id'' = Some (JInt i)")
      case False
      with \<open>tok ''email'' = Some e\<close> Some assms show ?thesis
        by (auto simp: delete_passenger_forbidden same_tables_execute issued_execute)
    next
      case True
      with \<open>tok ''email'' = Some e\<close> Some assms show ?thesis
        by (auto simp: delete_passenger_allowed Response_def)
    qed
  qed
qed

lemma update_passenger_mutation_guarded:
  assumes "UpdateWhereId j v \<in> set (issued db (snd (update_passenger d tok i request db)))"
  shows "j = i \<and> (\<exists>e p. tok ''email'' = Some e \<and> fst (get_by_email e db) = Some p \<and>
           p ''id'' = Some (JInt i) \<and>
           issued db (snd (update_passenger d tok i request db)) =
             [SelectWhereEmail e, UpdateWhereId i v])"
proof (cases "PassengerRequestSchema d request")
  case (Inl errs)
  with assms show ?thesis
    by (simp add: update_passenger_invalid issued_nil)
next
  case (Inr body)
  show ?thesis
  proof (cases "tok ''email''")
    case None
    with Inr assms show ?thesis
      by (simp add: update_passenger_no_email issued_nil)
  next
    case (Some e)
    show ?thesis
    proof (cases "fst (get_by_email e db)")
      case None
      with Inr Some assms show ?thesis
        by (simp add: update_passenger_not_found issued_execute)
    next
      case (Some p)
      show ?thesis
      proof (cases "p ''id'' = Some (JInt i)")
        case False
        with Inr \<open>tok ''email'' = Some e\<close> Some assms show ?thesis
          by (simp add: update_passenger_forbidden issued_execute)
      next
        case True
        with Inr \<open>tok ''email'' = Some e\<close> Some assms show ?thesis
          by (auto simp: update_passenger_allowed issued_update)
      qed
    qed
  qed
qed

lemma delete_passenger_mutation_guarded:
  assumes "DeleteWhereId j \<in> set (issued db (snd (delete_passenger tok i db)))"
  shows "j = i \<and> (\<exists>e p. tok ''email'' = Some e \<and> fst (get_by_email e db) = Some p \<and>
           p ''id'' = Some (JInt i) \<and>
           issued db (snd (delete_passenger tok i db)) = [SelectWhereEmail e, DeleteWhereId i])"
proof (cases "tok ''email''")
  case None
  with assms show ?thesis
    by (simp add: delete_passenger_no_email issued_nil)
next
  case (Some e)
  show ?thesis
  proof (cases "fst (get_by_email e db)")
    case None
    with Some assms show ?thesis
      by (simp add: delete_passenger_not_found issued_execute)
  next
    case (Some p)
    show ?thesis
    proof (cases "p ''id'' = Some (JInt i)")
      case False
      with \<open>tok ''email'' = Some e\<close> Some assms show ?thesis
        by (simp add: delete_passenger_forbidden issued_execute)
    next
      case True
      with \<open>tok ''email'' = Some e\<close> Some assms show ?thesis
        by (auto simp: delete_passenger_allowed issued_delete)
    qed
  qed
qed

section \<open>No mutation before the guard has passed\<close>

text \<open>
  C3. When \<open>PUT /passengers/{id}\<close> or \<open>DELETE /passengers/{id}\<close> answers 404 (no
  passenger for the token's email) or 403 (the passenger's id is not the id of the path),
  the tables are what they were and the only statement executed is the lookup by email.
  An \<open>UPDATE\<close> or \<open>DELETE\<close> statement is executed only for the id of the path, only
  after that lookup, and only when the lookup found a passenger whose id is the id of the
  path.
\<close>

theorem mutation_only_after_guard:
  "(update_passenger d decoded_token i request db = (Inr r, db') \<and>
      (status_code r = 404 \<or> status_code r = 403) \<longrightarrow>
      same_tables db db' \<and>
      (\<exists>e. decoded_token ''email'' = Some e \<and> issued db db' = [SelectWhereEmail e])) \<and>
   (delete_passenger decoded_token i db = (Inr r, db') \<and>
      (status_code r = 404 \<or> status_code r = 403) \<longrightarrow>
      same_tables db db' \<and>
      (\<exists>e. decoded_token ''email'' = Some e \<and> issued db db' = [SelectWhereEmail e])) \<and>
   (UpdateWhereId j v \<in> set (issued db (snd (update_passenger d decoded_token i request db))) \<longrightarrow>
      j = i \<and>
      (\<exists>e p. decoded_token ''email'' = Some e \<and> fst (get_by_email e db) = Some p \<and>
         p ''id'' = Some (JInt i) \<and>
         issued db (snd (update_passenger d decoded_token i request db)) =
           [SelectWhereEmail e, UpdateWhereId i v])) \<and>
   (DeleteWhereId j \<in> set (issued db (snd (delete_passenger decoded_token i db))) \<longrightarrow>
      j = i \<and>
      (\<exists>e p. decoded_token ''email'' = Some e \<and> fst (get_by_email e db) = Some p \<and>
         p ''id'' = Some (JInt i) \<and>
         issued db (snd (delete_passenger decoded_token i db)) =
           [SelectWhereEmail e, DeleteWhereId i]))"
  using update_passenger_failure_frame [of d decoded_token i request db r db']
    delete_passenger_failure_frame [of decoded_token i db r db']
    update_passenger_mutation_guarded [of j v db d decoded_token i request]
    delete_passenger_mutation_guarded [of j db decoded_token i]
  by blast

lemma sample_alice_token: "alice_token ''email'' = Some (JStr ''alice@example.com'')"
  by (simp add: alice_token_def)

lemma sample_alice_id: "alice ''id'' = Some (JInt 1)"
  by (simp add: alice_def)

lemma sample_update_forbidden:
  "update_passenger sample_deps alice_token 2 carol_body sample_db =
     (Inr forbidden, execute (SelectWhereEmail (JStr ''alice@example.com'')) sample_db)"
  using update_passenger_forbidden [of alice_token "JStr ''alice@example.com''" sample_db alice 2
      sample_deps carol_body]
  by (simp add: sample_alice_token sample_alice sample_alice_id sample_schema_carol)

lemma sample_delete_forbidden:
  "delete_passenger alice_token 2 sample_db =
     (Inr forbidden, execute (SelectWhereEmail (JStr ''alice@example.com'')) sample_db)"
  using delete_passenger_forbidden [of alice_token "JStr ''alice@example.com''" sample_db alice 2]
  by (simp add: sample_alice_token sample_alice sample_alice_id)

lemma sample_update_issued:
  "issued sample_db (snd (update_passenger sample_deps alice_token 1 carol_body sample_db)) =
     [SelectWhereEmail (JStr ''alice@example.com''),
      UpdateWhereId 1
        ((model_dump \<lparr>body_name = ''Carol'', body_age = 27, body_email = ''carol@example.com'',
            body_password = ''Carol789!''\<rparr>)(''updated_at'' \<mapsto> JStr ''2024-05-01T10:30''))]"
  using update_passenger_allowed [of sample_deps carol_body _ alice_token
      "JStr ''alice@example.com''" sample_db alice 1]
  by (simp add: sample_alice_token sample_alice sample_alice_id sample_schema_carol issued_update)
    (simp add: sample_deps_def)

lemma sample_delete_issued:
  "issued sample_db (snd (delete_passenger alice_token 1 sample_db)) =
     [SelectWhereEmail (JStr ''alice@example.com''), DeleteWhereId 1]"
  using delete_passenger_allowed [of alice_token "JStr ''alice@example.com''" sample_db alice 1]
  by (simp add: sample_alice_token sample_alice sample_alice_id issued_delete)

text \<open>
  With Alice's token, the path id 2 is refused by both handlers and nothing but the lookup
  is executed; with the path id 1 both statements are executed, after the lookup.
\<close>

theorem mutation_only_after_guard_witness:
  "update_passenger sample_deps alice_token 2 carol_body sample_db =
     (Inr forbidden, execute (SelectWhereEmail (JStr ''alice@example.com'')) sample_db) \<and>
   delete_passenger alice_token 2 sample_db =
     (Inr forbidden, execute (SelectWhereEmail (JStr ''alice@example.com'')) sample_db) \<and>
   status_code forbidden = 403 \<and>
   same_tables sample_db (execute (SelectWhereEmail (JStr ''alice@example.com'')) sample_db) \<and>
   issued sample_db (execute (SelectWhereEmail (JStr ''alice@example.com'')) sample_db) =
     [SelectWhereEmail (JStr ''alice@example.com'')] \<and>
   UpdateWhereId 1
     ((model_dump \<lparr>body_name = ''Carol'', body_age = 27, body_email = ''carol@example.com'',
         body_password = ''Carol789!''\<rparr>)(''updated_at'' \<mapsto> JStr ''2024-05-01T10:30''))
     \<in> set (issued sample_db
             (snd (update_passenger sample_deps alice_token 1 carol_body sample_db))) \<and>
   DeleteWhereId 1 \<in> set (issued sample_db (snd (delete_passenger alice_token 1 sample_db))) \<and>
   alice_token ''email'' = Some (JStr ''alice@example.com'') \<and>
   fst (get_by_email (JStr ''alice@example.com'') sample_db) = Some alice \<and>
   alice ''id'' = Some (JInt 1)"
proof -
  have refused: "same_tables sample_db
       (execute (SelectWhereEmail (JStr ''alice@example.com'')) sample_db) \<and>
     issued sample_db (execute (SelectWhereEmail (JStr ''alice@example.com'')) sample_db) =
       [SelectWhereEmail (JStr ''alice@example.com'')]"
    using mutation_only_after_guard [of sample_deps alice_token 2 carol_body sample_db forbidden
        "execute (SelectWhereEmail (JStr ''alice@example.com'')) sample_db"]
    by (simp add: sample_update_forbidden sample_delete_forbidden forbidden_def JSONResponse_def
        sample_alice_token)
  have allowed: "fst (get_by_email (JStr ''alice@example.com'') sample_db) = Some alice \<and>
     alice ''id'' = Some (JInt 1)"
    using mutation_only_after_guard [of sample_deps alice_token 1 carol_body sample_db _ _ 1
        "(model_dump \<lparr>body_name = ''Carol'', body_age = 27, body_email = ''carol@example.com'',
            body_password = ''Carol789!''\<rparr>)(''updated_at'' \<mapsto> JStr ''2024-05-01T10:30'')"]
    by (simp add: sample_update_issued sample_delete_issued sample_alice_token sample_alice
        sample_alice_id)
  from refused allowed show ?thesis
    by (simp add: sample_update_forbidden sample_delete_forbidden sample_update_issued
        sample_delete_issued sample_alice_token forbidden_def JSONResponse_def)
qed

text \<open>The remaining branches of the two reading handlers.\<close>

lemma get_passenger_details_no_email:
  assumes "tok ''email'' = None"
  shows "get_passenger_details tok i db = (Inl (KeyError ''email''), db)"
  using assms by (simp add: get_passenger_details_def)

lemma get_passenger_details_allowed:
  assumes "tok ''email'' = Some e" "fst (get_by_email e db) = Some p" "p ''id'' = Some (JInt i)"
  shows "get_passenger_details tok i db =
     (Inr (JSONResponse (SuccessResponse (DictOf p)) 200), execute (SelectWhereEmail e) db)"
  using assms by (simp add: get_passenger_details_def get_by_email_def)

lemma get_passenger_reservations_no_email:
  assumes "tok ''email'' = None"
  shows "get_passenger_reservations i tok db = (Inl (KeyError ''email''), db)"
  using assms by (simp add: get_passenger_reservations_def)

lemma get_passenger_reservations_allowed:
  assumes "tok ''email'' = Some e" "fst (get_by_email e db) = Some p" "p ''id'' = Some (JInt i)"
  shows "get_passenger_reservations i tok db =
     (case fst (get_reservations i (execute (SelectWhereEmail e) db)) of
        Inl ex \<Rightarrow> Inl ex
      | Inr rows \<Rightarrow> Inr (JSONResponse (SuccessResponse (ListOf rows)) 200),
      snd (get_reservations i (execute (SelectWhereEmail e) db)))"
  using assms
  by (cases "get_reservations i (execute (SelectWhereEmail e) db)")
    (simp add: get_passenger_reservations_def get_by_email_def split: sum.splits)

text \<open>Each protected handler refuses exactly when the rule of section 4.4 refuses.\<close>

lemma guard_cases:
  obtains (no_email) "tok ''email'' = None" "ownership_guard tok i db = Inl (KeyError ''email'')"
  | (absent) e where "tok ''email'' = Some e" "fst (get_by_email e db) = None"
      "ownership_guard tok i db = Inr (Refuse IdentityNotFound)"
  | (other) e p where "tok ''email'' = Some e" "fst (get_by_email e db) = Some p"
      "p ''id'' \<noteq> Some (JInt i)" "ownership_guard tok i db = Inr (Refuse OwnershipViolation)"
  | (own) e p where "tok ''email'' = Some e" "fst (get_by_email e db) = Some p"
      "p ''id'' = Some (JInt i)" "ownership_guard tok i db = Inr Allow"
proof (cases "tok ''email''")
  case None
  then show ?thesis
    using no_email by (simp add: ownership_guard_def)
next
  case (Some e)
  show ?thesis
  proof (cases "fst (get_by_email e db)")
    case None
    with Some show ?thesis
      using absent by (simp add: ownership_guard_def)
  next
    case (Some p)
    with \<open>tok ''email'' = Some e\<close> show ?thesis
      using other [of e p] own [of e p] by (cases "p ''id'' = Some (JInt i)") (simp_all add: ownership_guard_def)
  qed
qed

lemma refusal_distinct: "not_found \<noteq> forbidden" "forbidden \<noteq> not_found" "Response 204 \<noteq> not_found" "Response 204 \<noteq> forbidden"
  "JSONResponse c 200 \<noteq> not_found" "JSONResponse c 200 \<noteq> forbidden"
  "JSONResponse c 201 \<noteq> not_found" "JSONResponse c 201 \<noteq> forbidden"
  "JSONResponse c 500 \<noteq> not_found" "JSONResponse c 500 \<noteq> forbidden"
  "JSONResponse c 400 \<noteq> not_found" "JSONResponse c 400 \<noteq> forbidden"
  by (simp_all add: not_found_def forbidden_def JSONResponse_def Response_def)

lemma get_passenger_details_guard:
  "(fst (get_passenger_details tok i db) = Inr not_found \<longleftrightarrow>
      ownership_guard tok i db = Inr (Refuse IdentityNotFound)) \<and>
   (fst (get_passenger_details tok i db) = Inr forbidden \<longleftrightarrow>
      ownership_guard tok i db = Inr (Refuse OwnershipViolation))"
  by (cases tok i db rule: guard_cases)
    (simp_all add: get_passenger_details_no_email get_passenger_details_not_found
      get_passenger_details_forbidden get_passenger_details_allowed refusal_distinct)

lemma delete_passenger_guard:
  "(fst (delete_passenger tok i db) = Inr not_found \<longleftrightarrow>
      ownership_guard tok i db = Inr (Refuse IdentityNotFound)) \<and>
   (fst (delete_passenger tok i db) = Inr forbidden \<longleftrightarrow>
      ownership_guard tok i db = Inr (Refuse OwnershipViolation))"
  by (cases tok i db rule: guard_cases)
    (simp_all add: delete_passenger_no_email delete_passenger_not_found
      delete_passenger_forbidden delete_passenger_allowed refusal_distinct)

lemma get_passenger_reservations_guard:
  "(fst (get_passenger_reservations i tok db) = Inr not_found \<longleftrightarrow>
      ownership_guard tok i db = Inr (Refuse IdentityNotFound)) \<and>
   (fst (get_passenger_reservations i tok db) = Inr forbidden \<longleftrightarrow>
      ownership_guard tok i db = Inr (Refuse OwnershipViolation))"
  by (cases tok i db rule: guard_cases)
    (simp_all add: get_passenger_reservations_no_email get_passenger_reservations_not_found
      get_passenger_reservations_forbidden get_passenger_reservations_allowed refusal_distinct
      split: sum.splits)

lemma update_passenger_guard:
  assumes "PassengerRequestSchema d request = Inr body"
  shows "(fst (update_passenger d tok i request db) = Inr not_found \<longleftrightarrow>
      ownership_guard tok i db = Inr (Refuse IdentityNotFound)) \<and>
   (fst (update_passenger d tok i request db) = Inr forbidden \<longleftrightarrow>
      ownership_guard tok i db = Inr (Refuse OwnershipViolation))"
  using assms
  by (cases tok i db rule: guard_cases)
    (simp_all add: update_passenger_no_email update_passenger_not_found
      update_passenger_forbidden update_passenger_allowed refusal_distinct
      split: sum.splits)

lemma ownership_guard_mapping:
  assumes "\<forall>e. fst (get_by_email e db) = fst (get_by_email e db')"
  shows "ownership_guard tok i db = ownership_guard tok i db'"
  using assms by (cases "tok ''email''") (simp_all add: ownership_guard_def)

lemma get_passenger_details_mapping:
  assumes "\<forall>e. fst (get_by_email e db) = fst (get_by_email e db')"
  shows "fst (get_passenger_details tok i db) = fst (get_passenger_details tok i db')"
proof (cases tok i db rule: guard_cases)
  case no_email
  then show ?thesis
    by (simp add: get_passenger_details_no_email)
next
  case (absent e)
  with assms have "fst (get_by_email e db') = None"
    by simp
  with absent show ?thesis
    by (simp add: get_passenger_details_not_found)
next
  case (other e p)
  with assms have "fst (get_by_email e db') = Some p"
    by simp
  with other show ?thesis
    by (simp add: get_passenger_details_forbidden)
next
  case (own e p)
  with assms have "fst (get_by_email e db') = Some p"
    by simp
  with own show ?thesis
    by (simp add: get_passenger_details_allowed)
qed

lemma delete_passenger_mapping:
  assumes "\<forall>e. fst (get_by_email e db) = fst (get_by_email e db')"
  shows "fst (delete_passenger tok i db) = fst (delete_passenger tok i db')"
proof (cases tok i db rule: guard_cases)
  case no_email
  then show ?thesis
    by (simp add: delete_passenger_no_email)
next
  case (absent e)
  with assms have "fst (get_by_email e db') = None"
    by simp
  with absent show ?thesis
    by (simp add: delete_passenger_not_found)
next
  case (other e p)
  with assms have "fst (get_by_email e db') = Some p"
    by simp
  with other show ?thesis
    by (simp add: delete_passenger_forbidden)
next
  case (own e p)
  with assms have "fst (get_by_email e db') = Some p"
    by simp
  with own show ?thesis
    by (simp add: delete_passenger_allowed)
qed

lemma update_passenger_refusal_mapping:
  assumes "\<forall>e. fst (get_by_email e db) = fst (get_by_email e db')"
  shows "(fst (update_passenger d tok i request db) = Inr not_found \<longleftrightarrow>
          fst (update_passenger d tok i request db') = Inr not_found) \<and>
         (fst (update_passenger d tok i request db) = Inr forbidden \<longleftrightarrow>
          fst (update_passenger d tok i request db') = Inr forbidden)"
proof (cases "PassengerRequestSchema d request")
  case (Inl errs)
  then show ?thesis
    by (simp add: update_passenger_invalid)
next
  case (Inr body)
  then show ?thesis
    using update_passenger_guard [of d request body tok i db]
      update_passenger_guard [of d request body tok i db']
      ownership_guard_mapping [OF assms, of tok i]
    by simp
qed

lemma get_passenger_details_tables:
  "passengers (snd (get_passenger_details tok i db)) = passengers db"
  by (cases tok i db rule: guard_cases)
    (simp_all add: get_passenger_details_no_email get_passenger_details_not_found
      get_passenger_details_forbidden get_passenger_details_allowed passengers_execute)

section \<open>The decision depends on the mapping from emails to passengers only\<close>

text \<open>
  C7. If two states of the store resolve every email to the same passenger, then with the
  same token and the same path id the rule of section 4.4 decides the same in both, and so
  do the handlers: \<open>GET /passengers/{id}\<close> and \<open>DELETE /passengers/{id}\<close> give the same
  response, and \<open>PUT /passengers/{id}\<close> and \<open>GET /passengers/{id}/reservations\<close>
  refuse with 404 or with 403 in one state exactly when they do in the other. Evaluating
  \<open>GET /passengers/{id}\<close> again in the state the first evaluation left gives the same
  response.
\<close>

theorem ownership_guard_idempotent:
  assumes "\<forall>e. fst (get_by_email e db) = fst (get_by_email e db')"
  shows "ownership_guard decoded_token i db = ownership_guard decoded_token i db' \<and>
    fst (get_passenger_details decoded_token i db) =
      fst (get_passenger_details decoded_token i db') \<and>
    fst (delete_passenger decoded_token i db) = fst (delete_passenger decoded_token i db') \<and>
    (fst (get_passenger_reservations i decoded_token db) = Inr not_found \<longleftrightarrow>
       fst (get_passenger_reservations i decoded_token db') = Inr not_found) \<and>
    (fst (get_passenger_reservations i decoded_token db) = Inr forbidden \<longleftrightarrow>
       fst (get_passenger_reservations i decoded_token db') = Inr forbidden) \<and>
    (fst (update_passenger d decoded_token i request db) = Inr not_found \<longleftrightarrow>
       fst (update_passenger d decoded_token i request db') = Inr not_found) \<and>
    (fst (update_passenger d decoded_token i request db) = Inr forbidden \<longleftrightarrow>
       fst (update_passenger d decoded_token i request db') = Inr forbidden) \<and>
    fst (get_passenger_details decoded_token i
           (snd (get_passenger_details decoded_token i db))) =
      fst (get_passenger_details decoded_token i db)"
proof -
  have again: "\<forall>e. fst (get_by_email e (snd (get_passenger_details decoded_token i db))) =
      fst (get_by_email e db)"
    by (simp add: get_by_email_def get_passenger_details_tables)
  show ?thesis
    using ownership_guard_mapping [OF assms, of decoded_token i]
      get_passenger_details_mapping [OF assms, of decoded_token i]
      delete_passenger_mapping [OF assms, of decoded_token i]
      update_passenger_refusal_mapping [OF assms, of d decoded_token i request]
      get_passenger_details_mapping [OF again, of decoded_token i]
      get_passenger_reservations_guard [of i decoded_token db]
      get_passenger_reservations_guard [of i decoded_token db']
    by simp
qed

text \<open>Alice's token and Bob's id, before and after another request has listed the table.\<close>

theorem ownership_guard_idempotent_witness:
  "(\<forall>e. fst (get_by_email e sample_db) = fst (get_by_email e (execute SelectAll sample_db))) \<and>
   ownership_guard alice_token 2 sample_db = Inr (Refuse OwnershipViolation) \<and>
   ownership_guard alice_token 2 (execute SelectAll sample_db) = Inr (Refuse OwnershipViolation) \<and>
   fst (get_passenger_details alice_token 2 (execute SelectAll sample_db)) = Inr forbidden"
proof -
  have same: "\<forall>e. fst (get_by_email e sample_db) = fst (get_by_email e (execute SelectAll sample_db))"
    by (simp add: get_by_email_def passengers_execute)
  have first: "ownership_guard alice_token 2 sample_db = Inr (Refuse OwnershipViolation)"
    by (simp add: ownership_guard_def sample_alice_token sample_alice sample_alice_id)
  have "fst (get_passenger_details alice_token 2 sample_db) = Inr forbidden"
    using get_passenger_details_forbidden [of alice_token "JStr ''alice@example.com''" sample_db
        alice 2]
    by (simp add: sample_alice_token sample_alice sample_alice_id)
  with same first show ?thesis
    using ownership_guard_idempotent [OF same, of alice_token 2 sample_deps carol_body]
    by simp
qed

section \<open>The claims of the issued tokens\<close>

text \<open>
  C9. When \<open>POST /passengers/\<close> or \<open>PUT /passengers/{id}\<close> answers 201, the request
  body passed the validation, the token of the response is the encoding of the dumped
  body, and that dictionary holds the password of the body under the key \<open>password\<close>.
\<close>

theorem token_claims_are_request_body:
  "(fst (create_passenger d request db) = Inr r \<and> status_code r = 201 \<longrightarrow>
      (\<exists>body token new_passenger_id.
          PassengerRequestSchema d request = Inr body \<and>
          jwt_encode d (model_dump body) = Inr token \<and>
          content r =
            SuccessResponse
              (TokenAndPassenger token ([''id'' \<mapsto> JInt new_passenger_id] ++ model_dump body)) \<and>
          model_dump body ''password'' = Some (JStr (body_password body)))) \<and>
   (fst (update_passenger d decoded_token i request db) = Inr r' \<and> status_code r' = 201 \<longrightarrow>
      (\<exists>body token.
          PassengerRequestSchema d request = Inr body \<and>
          jwt_encode d (model_dump body) = Inr token \<and>
          content r' = SuccessResponse (TokenAndPassenger token (model_dump body)) \<and>
          model_dump body ''password'' = Some (JStr (body_password body))))"
proof -
  have password: "model_dump body ''password'' = Some (JStr (body_password body))" for body
    by (simp add: model_dump_def)
  have post: "\<exists>body token new_passenger_id.
          PassengerRequestSchema d request = Inr body \<and>
          jwt_encode d (model_dump body) = Inr token \<and>
          content r =
            SuccessResponse
              (TokenAndPassenger token ([''id'' \<mapsto> JInt new_passenger_id] ++ model_dump body))"
    if "fst (create_passenger d request db) = Inr r" "status_code r = 201"
    using that
    by (auto simp: create_passenger_def Let_def JSONResponse_def
        split: sum.splits prod.splits if_splits)
  have put: "\<exists>body token.
          PassengerRequestSchema d request = Inr body \<and>
          jwt_encode d (model_dump body) = Inr token \<and>
          content r' = SuccessResponse (TokenAndPassenger token (model_dump body))"
    if "fst (update_passenger d decoded_token i request db) = Inr r'" "status_code r' = 201"
  proof (cases "PassengerRequestSchema d request")
    case (Inl errs)
    with that show ?thesis
      by (auto simp: update_passenger_invalid JSONResponse_def)
  next
    case (Inr body)
    with that show ?thesis
      by (cases decoded_token i db rule: guard_cases)
        (auto simp: update_passenger_no_email update_passenger_not_found
          update_passenger_forbidden update_passenger_allowed JSONResponse_def
          not_found_def forbidden_def split: sum.splits)
  qed
  from post put password show ?thesis
    by blast
qed

lemma sample_schema_carol_body: "PassengerRequestSchema sample_deps carol_body = Inr carol"
  by (simp add: sample_schema_carol carol_def)

lemma sample_encode: "jwt_encode sample_deps claims = Inr (Signed ''secret'' 3600 claims)"
  by (simp add: sample_deps_def)

lemma sample_create:
  "fst (create_passenger sample_deps carol_body sample_db) =
     Inr (JSONResponse
            (SuccessResponse
               (TokenAndPassenger (Signed ''secret'' 3600 (model_dump carol))
                  ([''id'' \<mapsto> JInt 3] ++ model_dump carol)))
            201)"
proof -
  have "\<not> email_taken (model_dump carol) (passengers sample_db)"
    by (simp add: email_taken_def model_dump_def carol_def sample_db_def alice_def bob_def)
  then show ?thesis
    by (simp add: create_passenger_def sample_schema_carol_body sample_encode create_def Let_def
        sample_db_def)
qed

lemma sample_update:
  "fst (update_passenger sample_deps alice_token 1 carol_body sample_db) =
     Inr (JSONResponse
            (SuccessResponse
               (TokenAndPassenger (Signed ''secret'' 3600 (model_dump carol)) (model_dump carol)))
            201)"
proof -
  have "\<not> email_taken ((model_dump carol)(''updated_at'' \<mapsto> JStr now))
           (filter (\<lambda>r. r ''id'' \<noteq> Some (JInt 1)) (passengers sample_db))" for now
    by (simp add: email_taken_def model_dump_def carol_def sample_db_def alice_def bob_def)
  then have "fst (update 1 (model_dump carol) now
       (execute (SelectWhereEmail (JStr ''alice@example.com'')) sample_db)) = Inr True" for now
    by (simp add: update_def Let_def passengers_execute)
  then show ?thesis
    using update_passenger_allowed [of sample_deps carol_body carol alice_token
        "JStr ''alice@example.com''" sample_db alice 1]
    by (simp add: sample_schema_carol_body sample_alice_token sample_alice sample_alice_id
        sample_encode)
qed

text \<open>Carol's registration and Alice's update with Carol's data, both answered 201.\<close>

theorem token_claims_are_request_body_witness:
  "fst (create_passenger sample_deps carol_body sample_db) =
     Inr (JSONResponse
            (SuccessResponse
               (TokenAndPassenger (Signed ''secret'' 3600 (model_dump carol))
                  ([''id'' \<mapsto> JInt 3] ++ model_dump carol)))
            201) \<and>
   fst (update_passenger sample_deps alice_token 1 carol_body sample_db) =
     Inr (JSONResponse
            (SuccessResponse
               (TokenAndPassenger (Signed ''secret'' 3600 (model_dump carol)) (model_dump carol)))
            201) \<and>
   PassengerRequestSchema sample_deps carol_body = Inr carol \<and>
   jwt_encode sample_deps (model_dump carol) = Inr (Signed ''secret'' 3600 (model_dump carol)) \<and>
   model_dump carol ''password'' = Some (JStr ''Carol789!'')"
  using token_claims_are_request_body [of sample_deps carol_body sample_db
      "JSONResponse
            (SuccessResponse
               (TokenAndPassenger (Signed ''secret'' 3600 (model_dump carol))
                  ([''id'' \<mapsto> JInt 3] ++ model_dump carol)))
            201"
      alice_token 1
      "JSONResponse
            (SuccessResponse
               (TokenAndPassenger (Signed ''secret'' 3600 (model_dump carol)) (model_dump carol)))
            201"]
  by (simp add: sample_create sample_update sample_schema_carol_body sample_encode JSONResponse_def)
    (simp add: carol_def)

section \<open>Login and the round trip of its token\<close>

lemma get_by_email_Some:
  assumes "fst (get_by_email e db) = Some p"
  shows "p ''email'' = Some e" "p \<in> set (passengers db)"
  using assms by (auto simp: get_by_email_def find_Some_iff)

lemma get_by_email_None:
  "fst (get_by_email e db) = None \<longleftrightarrow> (\<forall>r \<in> set (passengers db). r ''email'' \<noteq> Some e)"
  by (auto simp: get_by_email_def find_None_iff)

lemma login_unknown:
  assumes "fst (get_by_email (JStr email) db) = None"
  shows "login v c now email password db =
     (Inl IdentityNotFound, execute (SelectWhereEmail (JStr email)) db)"
  using assms by (simp add: login_def get_by_email_def)

lemma login_mismatch:
  assumes "fst (get_by_email (JStr email) db) = Some p" "\<not> v p password"
  shows "login v c now email password db =
     (Inl InvalidCredentials, execute (SelectWhereEmail (JStr email)) db)"
  using assms by (simp add: login_def get_by_email_def)

lemma login_match:
  assumes "fst (get_by_email (JStr email) db) = Some p" "v p password"
  shows "login v c now email password db =
     (Inr (encode c now p), execute (SelectWhereEmail (JStr email)) db)"
  using assms by (simp add: login_def get_by_email_def)

lemma login_cases:
  obtains (unknown) "fst (get_by_email (JStr email) db) = None"
      "login v c now email password db =
         (Inl IdentityNotFound, execute (SelectWhereEmail (JStr email)) db)"
  | (mismatch) p where "fst (get_by_email (JStr email) db) = Some p" "\<not> v p password"
      "login v c now email password db =
         (Inl InvalidCredentials, execute (SelectWhereEmail (JStr email)) db)"
  | (match) p where "fst (get_by_email (JStr email) db) = Some p" "v p password"
      "login v c now email password db =
         (Inr (encode c now p), execute (SelectWhereEmail (JStr email)) db)"
proof (cases "fst (get_by_email (JStr email) db)")
  case None
  then show ?thesis
    using unknown login_unknown by blast
next
  case (Some p)
  then show ?thesis
    using mismatch [of p] match [of p] login_mismatch [of email db p v] login_match [of email db p v]
    by (cases "v p password") blast+
qed

text \<open>
  C4. \<open>login\<close> fails with \<open>IdentityNotFound\<close> (404) when no passenger has the email,
  and with \<open>InvalidCredentials\<close> (401, message "Invalid password") when the passenger is
  found and the password does not verify; when it verifies, the result is the encoding of
  the passenger's claims with status 200, and status 200 is returned in no other case.
  The tables are not changed.
\<close>

theorem login_outcomes:
  "(fst (get_by_email (JStr email) db) = None \<longrightarrow>
      fst (login v c now email password db) = Inl IdentityNotFound \<and>
      login_status (fst (login v c now email password db)) = 404) \<and>
   (\<forall>p. fst (get_by_email (JStr email) db) = Some p \<and> \<not> v p password \<longrightarrow>
      fst (login v c now email password db) = Inl InvalidCredentials \<and>
      login_status (fst (login v c now email password db)) = 401 \<and>
      login_message (fst (login v c now email password db)) = Some ''Invalid password'') \<and>
   (\<forall>p. fst (get_by_email (JStr email) db) = Some p \<and> v p password \<longrightarrow>
      fst (login v c now email password db) = Inr (encode c now p) \<and>
      login_status (fst (login v c now email password db)) = 200) \<and>
   (login_status (fst (login v c now email password db)) = 200 \<longrightarrow>
      (\<exists>p. fst (get_by_email (JStr email) db) = Some p \<and> v p password)) \<and>
   same_tables db (snd (login v c now email password db))"
  by (cases rule: login_cases [where email = email and db = db and v = v and c = c and now = now and password = password])
    (simp_all add: login_status_def login_message_def http_status_def same_tables_execute)

lemma decode_own:
  "decode c now (Signed (signing_key c) expiry claims) out \<longleftrightarrow>
     (if expiry < now then out = Inl Expired else out = Inr claims)"
  by (auto elim: decode.cases intro: decode.intros)

text \<open>
  C5. If \<open>login\<close> returns a token, then presenting it as a bearer token before its
  expiry (in particular at once) authenticates, and the claims that the authenticator
  yields, the only outcome it admits, carry the email given at login.
\<close>

theorem login_token_round_trip:
  assumes "fst (login v c now email password db) = Inr t"
    and "now' \<le> now + lifetime c"
  shows "\<exists>claims. bearer_authenticator c now' (Some (''Bearer'', t)) (Inr claims) \<and>
           claims ''email'' = Some (JStr email) \<and>
           (\<forall>out. bearer_authenticator c now' (Some (''Bearer'', t)) out \<longrightarrow> out = Inr claims)"
proof (cases rule: login_cases [where email = email and db = db and v = v and c = c and now = now and password = password])
  case unknown
  with assms show ?thesis by simp
next
  case (mismatch p)
  with assms show ?thesis by simp
next
  case (match p)
  with assms have t: "t = Signed (signing_key c) (now + lifetime c) p"
    by (simp add: encode_def)
  have email: "p ''email'' = Some (JStr email)"
    using match(1) by (rule get_by_email_Some)
  have dec: "decode c now' t out \<longleftrightarrow> out = Inr p" for out
    using assms(2) by (simp add: t decode_own)
  have "bearer_authenticator c now' (Some (''Bearer'', t)) (Inr p)"
    by (rule bearer_authenticator.authenticated) (simp add: dec)
  moreover have "out = Inr p" if "bearer_authenticator c now' (Some (''Bearer'', t)) out" for out
    using that by cases (simp_all add: dec)
  ultimately show ?thesis
    using email by blast
qed

lemma sample_alice_password:
  "sample_verify alice ''Alice123!''" "\<not> sample_verify alice ''Alice1234''"
  by (simp_all add: sample_verify_def alice_def)

text \<open>Carol is unknown to the sample store; Alice logs in with a wrong and with her password.\<close>

theorem login_outcomes_witness:
  "fst (get_by_email (JStr ''carol@example.com'') sample_db) = None \<and>
   login_status
     (fst (login sample_verify sample_codec 100 ''carol@example.com'' ''Carol789!'' sample_db)) =
     404 \<and>
   fst (get_by_email (JStr ''alice@example.com'') sample_db) = Some alice \<and>
   \<not> sample_verify alice ''Alice1234'' \<and>
   login_status
     (fst (login sample_verify sample_codec 100 ''alice@example.com'' ''Alice1234'' sample_db)) =
     401 \<and>
   login_message
     (fst (login sample_verify sample_codec 100 ''alice@example.com'' ''Alice1234'' sample_db)) =
     Some ''Invalid password'' \<and>
   sample_verify alice ''Alice123!'' \<and>
   fst (login sample_verify sample_codec 100 ''alice@example.com'' ''Alice123!'' sample_db) =
     Inr (encode sample_codec 100 alice) \<and>
   login_status
     (fst (login sample_verify sample_codec 100 ''alice@example.com'' ''Alice123!'' sample_db)) =
     200"
proof -
  have unknown: "login_status
     (fst (login sample_verify sample_codec 100 ''carol@example.com'' ''Carol789!'' sample_db)) =
     404"
    using login_outcomes [of "''carol@example.com''" sample_db sample_verify sample_codec 100
        "''Carol789!''"]
    by (auto simp: sample_carol)
  have mismatch: "login_status
     (fst (login sample_verify sample_codec 100 ''alice@example.com'' ''Alice1234'' sample_db)) =
     401 \<and>
   login_message
     (fst (login sample_verify sample_codec 100 ''alice@example.com'' ''Alice1234'' sample_db)) =
     Some ''Invalid password''"
    using login_outcomes [of "''alice@example.com''" sample_db sample_verify sample_codec 100
        "''Alice1234''"]
    by (auto simp: sample_alice sample_alice_password)
  have match: "fst (login sample_verify sample_codec 100 ''alice@example.com'' ''Alice123!''
        sample_db) = Inr (encode sample_codec 100 alice) \<and>
   login_status
     (fst (login sample_verify sample_codec 100 ''alice@example.com'' ''Alice123!'' sample_db)) =
     200"
    using login_outcomes [of "''alice@example.com''" sample_db sample_verify sample_codec 100
        "''Alice123!''"]
    by (auto simp: sample_alice sample_alice_password)
  from unknown mismatch match show ?thesis
    by (auto simp: sample_carol sample_alice sample_alice_password)
qed

text \<open>Alice's login at time 100 and the decoding of her token at the same time.\<close>

theorem login_token_round_trip_witness:
  "fst (login sample_verify sample_codec 100 ''alice@example.com'' ''Alice123!'' sample_db) =
     Inr (encode sample_codec 100 alice) \<and>
   (100::nat) \<le> 100 + lifetime sample_codec \<and>
   (\<exists>claims.
      bearer_authenticator sample_codec 100 (Some (''Bearer'', encode sample_codec 100 alice))
        (Inr claims) \<and>
      claims ''email'' = Some (JStr ''alice@example.com'') \<and>
      (\<forall>out. bearer_authenticator sample_codec 100
               (Some (''Bearer'', encode sample_codec 100 alice)) out \<longrightarrow>
             out = Inr claims))"
proof -
  have token: "fst (login sample_verify sample_codec 100 ''alice@example.com'' ''Alice123!''
      sample_db) = Inr (encode sample_codec 100 alice)"
    using login_match [of "''alice@example.com''" sample_db alice sample_verify "''Alice123!''"
        sample_codec 100]
    by (simp add: sample_alice sample_alice_password)
  have fresh: "(100::nat) \<le> 100 + lifetime sample_codec"
    by simp
  from token fresh login_token_round_trip [OF token fresh] show ?thesis
    by simp
qed

end
